theory Spec2Isabelle
  imports Main "HOL-Library.Sublist"
begin

section \<open>The script fix\_xcode\_project.py\<close>

text \<open>
  The script reads one project file, drops every line that names one of seven deleted
  Swift files (unless the line also names \<open>PDFDrawerComponents.swift\<close>), and writes the
  remaining lines back to the same path. A Python \<open>str\<close> is modelled as a \<open>string\<close>;
  the patterns and the separator are ASCII. Both calls of \<open>open\<close> are in text mode, so
  the text that \<open>f.read()\<close> hands over is the file's content after the newline
  translation of text mode, and the text handed to \<open>f.write\<close> is stored after the
  translation of the other direction.
\<close>

subsection \<open>Constants of the script\<close>

definition files_to_remove :: "string list" where
  "files_to_remove =
     [''PDFViewWrapper.swift'',
      ''PDFDrawerContainer.swift'',
      ''RightSideDrawerView.swift'',
      ''PDFFormFieldsView.swift'',
      ''PDFManager.swift'',
      ''SamplePDFTestView.swift'',
      ''PDFDrawerExampleView.swift'']"

text \<open>The literal of the inner test, \<open>'PDFDrawerComponents.swift' not in line\<close>.\<close>

definition exception_marker :: string where
  "exception_marker = ''PDFDrawerComponents.swift''"

text \<open>The literal passed to both calls of \<open>open\<close>.\<close>

definition project_path :: string where
  "project_path = ''XCAChatGPT.xcodeproj/project.pbxproj''"

text \<open>The separator \<open>'\n'\<close> of \<open>split\<close> and \<open>join\<close>.\<close>

definition newline :: char where
  "newline = CHR 0x0A"

subsection \<open>The string operations the script uses\<close>

text \<open>
  Python's \<open>sub in s\<close>: \<open>sub\<close> occurs in \<open>s\<close> at some offset. The empty string
  occurs in every string.
\<close>

fun str_in :: "string \<Rightarrow> string \<Rightarrow> bool" where
  "str_in sub [] = (sub = [])"
| "str_in sub (c # cs) = (prefix sub (c # cs) \<or> str_in sub cs)"

text \<open>
  Python's \<open>s.split(sep)\<close> for a one-character separator: the result is never empty, and
  a separator at the end gives a final empty piece. The first case of the inner
  \<open>case\<close> is never taken (see \<open>str_split_not_Nil\<close>).
\<close>

fun str_split :: "char \<Rightarrow> string \<Rightarrow> string list" where
  "str_split sep [] = [[]]"
| "str_split sep (c # cs) =
     (if c = sep then [] # str_split sep cs
      else (case str_split sep cs of
              [] \<Rightarrow> [[c]]
            | piece # pieces \<Rightarrow> (c # piece) # pieces))"

text \<open>Python's \<open>sep.join(xs)\<close> for a one-character separator.\<close>

fun str_join :: "char \<Rightarrow> string list \<Rightarrow> string" where
  "str_join sep [] = []"
| "str_join sep [x] = x"
| "str_join sep (x # y # ys) = x @ sep # str_join sep (y # ys)"

subsection \<open>The filter\<close>

text \<open>
  The inner loop over \<open>files_to_remove\<close>: \<open>should_keep\<close> starts as \<open>True\<close>, and the
  first file name that is in the line while the marker is not sets it to \<open>False\<close> and
  breaks.
\<close>

fun should_keep :: "string list \<Rightarrow> string \<Rightarrow> bool" where
  "should_keep [] line = True"
| "should_keep (filename # rest) line =
     (if str_in filename line \<and> \<not> str_in exception_marker line then False
      else should_keep rest line)"

text \<open>
  The outer loop over \<open>lines\<close>; the second argument is the list \<open>filtered_lines\<close>
  built so far, and \<open>append\<close> adds at its end.
\<close>

fun filter_loop :: "string list \<Rightarrow> string list \<Rightarrow> string list" where
  "filter_loop [] acc = acc"
| "filter_loop (line # rest) acc =
     (if should_keep files_to_remove line then filter_loop rest (acc @ [line])
      else filter_loop rest acc)"

definition filtered_lines :: "string list \<Rightarrow> string list" where
  "filtered_lines lines = filter_loop lines []"

text \<open>From the text read to the text written: split, filter, join.\<close>

definition new_content :: "string \<Rightarrow> string" where
  "new_content content = str_join newline (filtered_lines (str_split newline content))"

subsection \<open>The script as a whole\<close>

text \<open>
  The file system is the environment's. Its state has an arbitrary type \<open>'fs\<close>, and its
  two operations are parameters: \<open>os_read fs path\<close> is what
  \<open>with open(path, 'r') as f: f.read()\<close> gives (the text, or the exception raised), and
  \<open>os_write fs path text\<close> is what \<open>with open(path, 'w') as f: f.write(text)\<close> does (the
  new state, and the exception raised if any; a write that fails may already have
  truncated the file). The script has no \<open>try\<close>, so an exception of type \<open>'e\<close> ends the
  run where it is raised. Opening a file for reading does not change the file system.
\<close>

datatype effect = ReadFile string | WriteFile string string | Print string

record ('fs, 'e) run =
  final_fs :: 'fs
  trace :: "effect list"
  raised :: "'e option"

text \<open>The two messages printed at the end; the first starts with U+2705 in UTF-8.\<close>

definition success_message :: string where
  "success_message =
     [CHR 0xE2, CHR 0x9C, CHR 0x85] @ '' Removed references to deleted files from Xcode project''"

definition next_step_message :: string where
  "next_step_message = ''Now run: Clean Build Folder (Cmd+Shift+K) and Build (Cmd+B)''"

definition fix_xcode_project ::
  "('fs \<Rightarrow> string \<Rightarrow> 'e + string) \<Rightarrow> ('fs \<Rightarrow> string \<Rightarrow> string \<Rightarrow> 'fs \<times> 'e option) \<Rightarrow> 'fs
     \<Rightarrow> ('fs, 'e) run" where
  "fix_xcode_project os_read os_write fs =
     (case os_read fs project_path of
        Inl e \<Rightarrow> \<lparr>final_fs = fs, trace = [ReadFile project_path], raised = Some e\<rparr>
      | Inr content \<Rightarrow>
          (let text = new_content content;
               done = [ReadFile project_path, WriteFile project_path text]
           in (case os_write fs project_path text of
                 (fs', Some e) \<Rightarrow> \<lparr>final_fs = fs', trace = done, raised = Some e\<rparr>
               | (fs', None) \<Rightarrow>
                   \<lparr>final_fs = fs',
                    trace = done @ [Print success_message, Print next_step_message],
                    raised = None\<rparr>)))"

subsection \<open>Files in text mode\<close>

text \<open>
  \<open>open(path, 'r')\<close> and \<open>open(path, 'w')\<close> have no \<open>newline\<close> argument. On reading,
  Python then turns every \<open>'\r\n'\<close> and every remaining \<open>'\r'\<close> of the file into
  \<open>'\n'\<close>; on writing, it stores every \<open>'\n'\<close> of the text as the line separator of the
  platform.
\<close>

definition carriage_return :: char where
  "carriage_return = CHR 0x0D"

fun universal_newlines :: "string \<Rightarrow> string" where
  "universal_newlines [] = []"
| "universal_newlines [c] = (if c = carriage_return then [newline] else [c])"
| "universal_newlines (c # d # cs) =
     (if c = carriage_return \<and> d = newline then newline # universal_newlines cs
      else if c = carriage_return then newline # universal_newlines (d # cs)
      else c # universal_newlines (d # cs))"

fun write_newlines :: "string \<Rightarrow> string \<Rightarrow> string" where
  "write_newlines linesep [] = []"
| "write_newlines linesep (c # cs) =
     (if c = newline then linesep @ write_newlines linesep cs
      else c # write_newlines linesep cs)"

text \<open>
  The script edits an Xcode project, so it runs on macOS, where \<open>os.linesep\<close> is
  \<open>'\n'\<close>.
\<close>

definition os_linesep :: string where
  "os_linesep = [newline]"

text \<open>
  A file system to run the script on: a path is absent or has a content, a read of an
  absent path raises and a read of a present one gives its content in text mode, a write
  replaces the content by the text in text mode.
\<close>

datatype io_error = FileNotFoundError | PermissionError

definition sample_read :: "(string \<rightharpoonup> string) \<Rightarrow> string \<Rightarrow> io_error + string" where
  "sample_read fs path =
     (case fs path of
        None \<Rightarrow> Inl FileNotFoundError
      | Some stored \<Rightarrow> Inr (universal_newlines stored))"

definition sample_write ::
  "(string \<rightharpoonup> string) \<Rightarrow> string \<Rightarrow> string \<Rightarrow> (string \<rightharpoonup> string) \<times> io_error option" where
  "sample_write fs path t = (fs(path \<mapsto> write_newlines os_linesep t), None)"

section \<open>Properties\<close>

subsection \<open>Substring test\<close>

lemma str_in_sublist: "str_in sub s \<longleftrightarrow> sublist sub s"
  by (induction s) (auto simp: sublist_Cons_right)

lemma str_in_occurs: "str_in sub s \<longleftrightarrow> (\<exists>before after. s = before @ sub @ after)"
  by (simp add: str_in_sublist sublist_def)

lemma str_in_empty_line: "str_in sub [] \<longleftrightarrow> sub = []"
  by simp

subsection \<open>The loops as a filter\<close>

lemma should_keep_iff:
  "should_keep names line \<longleftrightarrow>
     str_in exception_marker line \<or> (\<forall>name \<in> set names. \<not> str_in name line)"
  by (induction names) auto

lemma filter_loop_acc: "filter_loop lines acc = acc @ filter (should_keep files_to_remove) lines"
  by (induction lines arbitrary: acc) simp_all

lemma filtered_lines_filter: "filtered_lines lines = filter (should_keep files_to_remove) lines"
  by (simp add: filtered_lines_def filter_loop_acc)

lemma keep_empty_line: "should_keep files_to_remove []"
  by (simp add: should_keep_iff files_to_remove_def)

subsection \<open>Splitting and joining\<close>

lemma str_split_not_Nil: "str_split sep s \<noteq> []"
  by (induction s) (auto split: list.splits)

text \<open>Joining the pieces of a text gives the text back, whatever the text.\<close>

lemma str_join_split: "str_join sep (str_split sep s) = s"
proof (induction s)
  case Nil
  then show ?case by simp
next
  case (Cons c cs)
  obtain piece pieces where ps: "str_split sep cs = piece # pieces"
    using str_split_not_Nil [of sep cs] by (cases "str_split sep cs") auto
  show ?case
  proof (cases "c = sep")
    case True
    with Cons ps show ?thesis by simp
  next
    case False
    with Cons ps show ?thesis by (cases pieces) auto
  qed
qed

lemma str_split_no_sep: "piece \<in> set (str_split sep s) \<Longrightarrow> sep \<notin> set piece"
  by (induction s arbitrary: piece) (auto split: if_splits list.splits)

lemma str_split_plain: "sep \<notin> set x \<Longrightarrow> str_split sep x = [x]"
  by (induction x) auto

lemma str_split_append_sep:
  "sep \<notin> set x \<Longrightarrow> str_split sep (x @ sep # rest) = x # str_split sep rest"
  by (induction x) auto

text \<open>
  The other direction needs at least one piece, and pieces free of the separator:
  joining no piece at all gives the empty text, which splits into one empty piece.
\<close>

lemma str_split_join:
  "xs \<noteq> [] \<Longrightarrow> \<forall>x \<in> set xs. sep \<notin> set x \<Longrightarrow> str_split sep (str_join sep xs) = xs"
  by (induction sep xs rule: str_join.induct) (auto simp: str_split_plain str_split_append_sep)

lemma str_split_snoc_sep: "str_split sep (s @ [sep]) = str_split sep s @ [[]]"
  by (induction s) (auto simp: str_split_not_Nil split: list.splits)

lemma str_join_snoc_empty:
  "str_join sep (xs @ [[]]) = (if xs = [] then [] else str_join sep xs @ [sep])"
  by (induction sep xs rule: str_join.induct) auto

subsection \<open>The runs of the script\<close>

text \<open>
  After a read that succeeds, the next effect is the write of the filtered text to the
  same path, whatever the write then does.
\<close>

lemma script_trace_after_read:
  "os_read fs project_path = Inr content \<Longrightarrow>
     take 2 (trace (fix_xcode_project os_read os_write fs)) =
       [ReadFile project_path, WriteFile project_path (new_content content)]"
  by (simp add: fix_xcode_project_def Let_def split: prod.splits option.splits)

lemma script_success:
  "os_read fs project_path = Inr content \<Longrightarrow>
   os_write fs project_path (new_content content) = (fs', None) \<Longrightarrow>
     fix_xcode_project os_read os_write fs =
       \<lparr>final_fs = fs',
        trace = [ReadFile project_path, WriteFile project_path (new_content content),
                 Print success_message, Print next_step_message],
        raised = None\<rparr>"
  by (simp add: fix_xcode_project_def Let_def)

text \<open>An exception of the write ends the run before the messages are printed.\<close>

lemma script_write_failure:
  "os_read fs project_path = Inr content \<Longrightarrow>
   os_write fs project_path (new_content content) = (fs', Some e) \<Longrightarrow>
     fix_xcode_project os_read os_write fs =
       \<lparr>final_fs = fs',
        trace = [ReadFile project_path, WriteFile project_path (new_content content)],
        raised = Some e\<rparr>"
  by (simp add: fix_xcode_project_def Let_def)

subsection \<open>Text mode\<close>

text \<open>A content without carriage returns is read as it is stored.\<close>

lemma universal_newlines_plain:
  "carriage_return \<notin> set stored \<Longrightarrow> universal_newlines stored = stored"
  by (induction stored rule: universal_newlines.induct) auto

text \<open>With \<open>'\n'\<close> as the line separator, a text is stored as it is.\<close>

lemma write_newlines_posix: "write_newlines os_linesep t = t"
  by (induction t) (auto simp: os_linesep_def)

text \<open>
  After a read that succeeds, the file system and the outcome of the run are those of
  the write of the filtered text.
\<close>

lemma script_run_after_read:
  "os_read fs project_path = Inr content \<Longrightarrow>
     final_fs (fix_xcode_project os_read os_write fs)
       = fst (os_write fs project_path (new_content content))
     \<and> raised (fix_xcode_project os_read os_write fs)
       = snd (os_write fs project_path (new_content content))"
  by (simp add: fix_xcode_project_def Let_def split: prod.splits option.splits)

section \<open>The claims\<close>

text \<open>
  C1. For every sequence of lines, the filter keeps a line if and only if the line
  contains the marker \<open>PDFDrawerComponents.swift\<close> or contains none of the seven
  exclusion substrings; so every output line contains the marker or contains no
  exclusion substring.
\<close>

theorem filter_keeps_iff:
  "filtered_lines lines =
     filter (\<lambda>line. str_in exception_marker line \<or>
                    (\<forall>name \<in> set files_to_remove. \<not> str_in name line)) lines
   \<and> (\<forall>line \<in> set (filtered_lines lines).
         str_in exception_marker line \<or> (\<forall>name \<in> set files_to_remove. \<not> str_in name line))
   \<and> length files_to_remove = 7"
proof (intro conjI)
  show "filtered_lines lines =
     filter (\<lambda>line. str_in exception_marker line \<or>
                    (\<forall>name \<in> set files_to_remove. \<not> str_in name line)) lines"
    unfolding filtered_lines_filter by (rule filter_cong) (simp_all add: should_keep_iff)
  show "\<forall>line \<in> set (filtered_lines lines).
         str_in exception_marker line \<or> (\<forall>name \<in> set files_to_remove. \<not> str_in name line)"
    unfolding filtered_lines_filter using should_keep_iff by simp
  show "length files_to_remove = 7"
    by (simp add: files_to_remove_def)
qed

theorem filter_keeps_iff_witness:
  "''main.swift'' \<in> set (filtered_lines [''PDFManager.swift'', ''main.swift''])
   \<and> (str_in exception_marker ''main.swift''
        \<or> (\<forall>name \<in> set files_to_remove. \<not> str_in name ''main.swift''))
   \<and> filtered_lines [''PDFManager.swift'', ''main.swift''] = [''main.swift'']"
proof -
  have out: "filtered_lines [''PDFManager.swift'', ''main.swift''] = [''main.swift'']"
    by (simp add: filtered_lines_def files_to_remove_def exception_marker_def)
  have "\<forall>line \<in> set (filtered_lines [''PDFManager.swift'', ''main.swift'']).
         str_in exception_marker line \<or> (\<forall>name \<in> set files_to_remove. \<not> str_in name line)"
    using filter_keeps_iff [of "[''PDFManager.swift'', ''main.swift'']"] by blast
  with out show ?thesis by simp
qed

text \<open>
  C2. The filter is idempotent: filtering the filtered lines changes nothing, and a
  second run on the text the first run wrote writes that same text again.
\<close>

theorem filter_idempotent:
  "filtered_lines (filtered_lines lines) = filtered_lines lines
   \<and> new_content (new_content content) = new_content content"
proof
  show idem: "filtered_lines (filtered_lines lines) = filtered_lines lines" for lines
    by (simp add: filtered_lines_filter)
  define kept where "kept = filtered_lines (str_split newline content)"
  show "new_content (new_content content) = new_content content"
  proof (cases "kept = []")
    case True
    then have "new_content content = []"
      by (simp add: new_content_def kept_def)
    moreover have "new_content [] = []"
      by (simp add: new_content_def filtered_lines_filter keep_empty_line)
    ultimately show ?thesis by simp
  next
    case False
    have "\<forall>x \<in> set kept. newline \<notin> set x"
      by (auto simp: kept_def filtered_lines_filter dest: str_split_no_sep)
    with False have "str_split newline (str_join newline kept) = kept"
      by (rule str_split_join)
    moreover have "filtered_lines kept = kept"
      unfolding kept_def by (rule idem)
    ultimately show ?thesis
      by (simp add: new_content_def kept_def)
  qed
qed

text \<open>
  C3. The output lines are a subsequence of the input lines: each occurs verbatim in the
  input, none is added or rewritten, and the kept lines stay in their input order.
\<close>

theorem output_subsequence:
  "subseq (filtered_lines lines) lines \<and> set (filtered_lines lines) \<subseteq> set lines"
  by (simp add: filtered_lines_filter)

text \<open>
  C4, as stated: for every content of the file with no line that has an exclusion
  substring without the marker, the content written back is byte-identical to the
  original. It fails for a file with \<open>'\r\n'\<close> line ends: no line is dropped, and the
  file comes back with \<open>'\n'\<close> line ends.
\<close>

theorem crlf_file_rewritten_counterexample:
  "list_all (should_keep files_to_remove)
     (str_split newline (''a'' @ [carriage_return, newline] @ ''b''))
   \<and> list_all (should_keep files_to_remove)
     (str_split newline (universal_newlines (''a'' @ [carriage_return, newline] @ ''b'')))
   \<and> final_fs (fix_xcode_project sample_read sample_write
        [project_path \<mapsto> ''a'' @ [carriage_return, newline] @ ''b'']) project_path
       = Some (''a'' @ [newline] @ ''b'')
   \<and> final_fs (fix_xcode_project sample_read sample_write
        [project_path \<mapsto> ''a'' @ [carriage_return, newline] @ ''b'']) project_path
       \<noteq> Some (''a'' @ [carriage_return, newline] @ ''b'')"
  by (simp add: fix_xcode_project_def sample_read_def sample_write_def new_content_def
      filtered_lines_def files_to_remove_def exception_marker_def newline_def
      carriage_return_def os_linesep_def Let_def)

text \<open>
  C4, amended: when no line of the text that \<open>f.read()\<close> returns has an exclusion
  substring without the marker, the text passed to \<open>f.write\<close> is that text, character
  for character (splitting at the newlines and joining with newlines is the identity),
  whatever the file system does with it; and when the file's content has no carriage
  return either, the run leaves the file system as it was, the file byte-identical.
\<close>

theorem unchanged_when_nothing_matches:
  assumes no_match: "\<forall>line \<in> set (str_split newline content).
            \<forall>name \<in> set files_to_remove. str_in name line \<longrightarrow> str_in exception_marker line"
  shows "new_content content = content
         \<and> (os_read fs project_path = Inr content \<longrightarrow>
              final_fs (fix_xcode_project os_read os_write fs)
                = fst (os_write fs project_path content)
              \<and> raised (fix_xcode_project os_read os_write fs)
                = snd (os_write fs project_path content)
              \<and> take 2 (trace (fix_xcode_project os_read os_write fs))
                = [ReadFile project_path, WriteFile project_path content])
         \<and> (files project_path = Some content \<and> carriage_return \<notin> set content \<longrightarrow>
              fix_xcode_project sample_read sample_write files =
                \<lparr>final_fs = files,
                 trace = [ReadFile project_path, WriteFile project_path content,
                          Print success_message, Print next_step_message],
                 raised = None\<rparr>)"
proof -
  have "\<forall>line \<in> set (str_split newline content). should_keep files_to_remove line"
    unfolding should_keep_iff using no_match by blast
  then have "filtered_lines (str_split newline content) = str_split newline content"
    by (simp add: filtered_lines_filter)
  then have same: "new_content content = content"
    by (simp add: new_content_def str_join_split)
  have any_fs:
    "final_fs (fix_xcode_project os_read os_write fs) = fst (os_write fs project_path content)
     \<and> raised (fix_xcode_project os_read os_write fs) = snd (os_write fs project_path content)
     \<and> take 2 (trace (fix_xcode_project os_read os_write fs))
         = [ReadFile project_path, WriteFile project_path content]"
    if read: "os_read fs project_path = Inr content"
  proof -
    have "final_fs (fix_xcode_project os_read os_write fs)
            = fst (os_write fs project_path (new_content content))
          \<and> raised (fix_xcode_project os_read os_write fs)
            = snd (os_write fs project_path (new_content content))"
      using read by (rule script_run_after_read [where os_read = os_read])
    moreover have "take 2 (trace (fix_xcode_project os_read os_write fs)) =
            [ReadFile project_path, WriteFile project_path (new_content content)]"
      using read by (rule script_trace_after_read [where os_read = os_read])
    ultimately show ?thesis
      using same by simp
  qed
  have text_mode:
    "fix_xcode_project sample_read sample_write files =
       \<lparr>final_fs = files,
        trace = [ReadFile project_path, WriteFile project_path content,
                 Print success_message, Print next_step_message],
        raised = None\<rparr>"
    if stored: "files project_path = Some content" and plain: "carriage_return \<notin> set content"
  proof -
    have read: "sample_read files project_path = Inr content"
      using stored plain by (simp add: sample_read_def universal_newlines_plain)
    have "files(project_path \<mapsto> content) = files"
      using stored by (simp add: map_upd_triv)
    then have wrote: "sample_write files project_path (new_content content) = (files, None)"
      by (simp add: sample_write_def write_newlines_posix same)
    have "fix_xcode_project sample_read sample_write files =
            \<lparr>final_fs = files,
             trace = [ReadFile project_path, WriteFile project_path (new_content content),
                      Print success_message, Print next_step_message],
             raised = None\<rparr>"
      using read wrote by (rule script_success [where os_read = sample_read])
    with same show ?thesis
      by simp
  qed
  from same any_fs text_mode show ?thesis
    by blast
qed

theorem unchanged_when_nothing_matches_witness:
  "new_content (''a'' @ [newline] @ ''main.swift'' @ [newline])
     = ''a'' @ [newline] @ ''main.swift'' @ [newline]
   \<and> fix_xcode_project sample_read sample_write
        [project_path \<mapsto> ''a'' @ [newline] @ ''main.swift'' @ [newline]] =
       \<lparr>final_fs = [project_path \<mapsto> ''a'' @ [newline] @ ''main.swift'' @ [newline]],
        trace = [ReadFile project_path,
                 WriteFile project_path (''a'' @ [newline] @ ''main.swift'' @ [newline]),
                 Print success_message, Print next_step_message],
        raised = None\<rparr>"
proof -
  have no_match:
    "\<forall>line \<in> set (str_split newline (''a'' @ [newline] @ ''main.swift'' @ [newline])).
       \<forall>name \<in> set files_to_remove. str_in name line \<longrightarrow> str_in exception_marker line"
    by (simp add: newline_def files_to_remove_def exception_marker_def)
  have stored:
    "[project_path \<mapsto> ''a'' @ [newline] @ ''main.swift'' @ [newline]] project_path
       = Some (''a'' @ [newline] @ ''main.swift'' @ [newline])
     \<and> carriage_return \<notin> set (''a'' @ [newline] @ ''main.swift'' @ [newline])"
    by (simp add: newline_def carriage_return_def)
  show ?thesis
    using unchanged_when_nothing_matches
      [OF no_match,
       where files = "[project_path \<mapsto> ''a'' @ [newline] @ ''main.swift'' @ [newline]]"
         and os_read = sample_read and os_write = sample_write and fs = Map.empty]
      stored
    by blast
qed

text \<open>
  C5. The scenarios of the specification: the line \<open>PDFViewWrapper.swift\<close> is dropped;
  the line \<open>PDFDrawerContainer.swift, PDFDrawerComponents.swift\<close>, which has a target and
  the marker, is kept verbatim; the line \<open>main.swift\<close>, which matches nothing, is kept
  verbatim.
\<close>

theorem spec_scenarios:
  "filtered_lines [''PDFViewWrapper.swift''] = []
   \<and> filtered_lines [''PDFDrawerContainer.swift, PDFDrawerComponents.swift'']
       = [''PDFDrawerContainer.swift, PDFDrawerComponents.swift'']
   \<and> filtered_lines [''main.swift''] = [''main.swift'']"
  by (simp add: filtered_lines_def files_to_remove_def exception_marker_def)

text \<open>
  C6. When reading the project file fails, the script writes nothing and the file system
  is as it was: the only effect of the run is the read, and the run ends with the
  exception of the read.
\<close>

theorem read_failure_leaves_file:
  "os_read fs project_path = Inl e \<Longrightarrow>
     fix_xcode_project os_read os_write fs =
       \<lparr>final_fs = fs, trace = [ReadFile project_path], raised = Some e\<rparr>"
  by (simp add: fix_xcode_project_def)

theorem read_failure_leaves_file_witness:
  "fix_xcode_project sample_read sample_write Map.empty =
     \<lparr>final_fs = Map.empty, trace = [ReadFile project_path], raised = Some FileNotFoundError\<rparr>"
proof -
  have "sample_read Map.empty project_path = Inl FileNotFoundError"
    by (simp add: sample_read_def)
  then show ?thesis
    by (rule read_failure_leaves_file [where os_read = sample_read])
qed

text \<open>C8. The output never has more lines than the input.\<close>

theorem line_count: "length (filtered_lines lines) \<le> length lines"
  by (simp add: filtered_lines_filter)

text \<open>
  C9, as stated: an empty line is always kept, and a text that ends with a newline
  gives an output that ends with a newline. The second part fails when every line before
  the final newline is dropped: the one empty line that is left joins to the empty text.
\<close>

theorem trailing_newline_lost_counterexample:
  "last (''PDFManager.swift'' @ [newline]) = newline
   \<and> new_content (''PDFManager.swift'' @ [newline]) = []
   \<and> \<not> (new_content (''PDFManager.swift'' @ [newline]) \<noteq> []
          \<and> last (new_content (''PDFManager.swift'' @ [newline])) = newline)"
  by (simp add: new_content_def newline_def filtered_lines_def files_to_remove_def
      exception_marker_def)

text \<open>
  C9, amended: an empty line is always kept, wherever it stands. For a text that ends
  with a newline, the output is the output for the text before that newline followed by
  the newline when at least one line before it is kept, and the empty text when none is.
\<close>

theorem trailing_newline_kept:
  "should_keep files_to_remove []
   \<and> filtered_lines (before @ [] # after) = filtered_lines before @ [] # filtered_lines after
   \<and> new_content (pre @ [newline]) =
       (if filtered_lines (str_split newline pre) = [] then []
        else new_content pre @ [newline])"
  by (simp add: keep_empty_line filtered_lines_filter new_content_def str_split_snoc_sep
      str_join_snoc_empty)

theorem trailing_newline_kept_witness:
  "new_content (''main.swift'' @ [newline]) = ''main.swift'' @ [newline]"
proof -
  have "filtered_lines (str_split newline ''main.swift'') = [''main.swift'']"
    by (simp add: newline_def filtered_lines_def files_to_remove_def exception_marker_def)
  then show ?thesis
    using trailing_newline_kept [of "[]" "[]" "''main.swift''"]
    by (simp add: new_content_def)
qed

text \<open>
  C10. Whether a line is kept depends on that line alone, so the filter distributes over
  the concatenation of line sequences (and maps the empty sequence to itself).
\<close>

theorem filter_append_hom:
  "filtered_lines (a @ b) = filtered_lines a @ filtered_lines b \<and> filtered_lines [] = []"
  by (simp add: filtered_lines_filter)

end
